theory Spec2Isabelle
  imports Main "HOL-Library.Word" "HOL-Library.Multiset"
begin

unbundle bit_operations_syntax

section \<open>Common ground: exceptions, text output\<close>

text \<open>
  The exercises throw \<open>std::invalid_argument\<close> only; the payload is the \<open>what()\<close> text.
  A function that can throw returns \<open>exn + 'a\<close>, with \<open>Inl\<close> for the exception that
  leaves the function.
\<close>

datatype exn = InvalidArgument string

text \<open>\<open>std::endl\<close> writes a line feed.\<close>

definition endl :: string where
  "endl = [CHR 0x0A]"

text \<open>\<open>operator<<\<close> on an integer: decimal digits, a minus sign for negative values.\<close>

definition digit_char :: "nat \<Rightarrow> char" where
  "digit_char d = ''0123456789'' ! d"

function show_nat :: "nat \<Rightarrow> string" where
  "show_nat n = (if n < 10 then [digit_char n] else show_nat (n div 10) @ [digit_char (n mod 10)])"
  by pat_completeness auto
termination
  by (relation "measure id") auto

declare show_nat.simps [simp del]

definition show_int :: "int \<Rightarrow> string" where
  "show_int i = (if i < 0 then CHR ''-'' # show_nat (nat (- i)) else show_nat (nat i))"

section \<open>The type \<open>double\<close>: IEEE 754 binary64\<close>

text \<open>
  A \<open>double\<close> is its 64-bit pattern: one sign bit, eleven exponent bits, fifty-two
  fraction bits. Comparisons and arithmetic follow IEEE 754 with round-to-nearest-even,
  the default mode of a C++ program. All intermediate quantities are integers: a finite
  value is \<open>d_smant w * 2 ^ d_ulp w\<close>.
\<close>

type_synonym double = "64 word"

definition d_sign :: "double \<Rightarrow> bool" where
  "d_sign w = (2 ^ 63 \<le> uint w)"

definition d_expo :: "double \<Rightarrow> int" where
  "d_expo w = (uint w div 2 ^ 52) mod 2 ^ 11"

definition d_frac :: "double \<Rightarrow> int" where
  "d_frac w = uint w mod 2 ^ 52"

definition d_is_nan :: "double \<Rightarrow> bool" where
  "d_is_nan w = (d_expo w = 2047 \<and> d_frac w \<noteq> 0)"

definition d_is_inf :: "double \<Rightarrow> bool" where
  "d_is_inf w = (d_expo w = 2047 \<and> d_frac w = 0)"

definition d_is_zero :: "double \<Rightarrow> bool" where
  "d_is_zero w = (d_expo w = 0 \<and> d_frac w = 0)"

text \<open>
  Non-NaN doubles are ordered like their sign-magnitude integers (both zeros have key 0);
  every comparison with a NaN operand is false.
\<close>

definition d_key :: "double \<Rightarrow> int" where
  "d_key w = (if d_sign w then - (uint w mod 2 ^ 63) else uint w mod 2 ^ 63)"

definition d_le :: "double \<Rightarrow> double \<Rightarrow> bool" where
  "d_le a b = (\<not> d_is_nan a \<and> \<not> d_is_nan b \<and> d_key a \<le> d_key b)"

definition d_lt :: "double \<Rightarrow> double \<Rightarrow> bool" where
  "d_lt a b = (\<not> d_is_nan a \<and> \<not> d_is_nan b \<and> d_key a < d_key b)"

definition d_mant :: "double \<Rightarrow> int" where
  "d_mant w = (if d_expo w = 0 then d_frac w else 2 ^ 52 + d_frac w)"

definition d_ulp :: "double \<Rightarrow> int" where
  "d_ulp w = (if d_expo w = 0 then - 1074 else d_expo w - 1075)"

definition d_smant :: "double \<Rightarrow> int" where
  "d_smant w = (if d_sign w then - d_mant w else d_mant w)"

text \<open>
  Rounding. \<open>d_round_mag n d e\<close> is the magnitude pattern of the double nearest to
  \<open>n / d * 2 ^ e\<close> (for positive \<open>n\<close>, \<open>d\<close>), ties to the even mantissa,
  overflow to infinity. \<open>floor_log2 n d\<close> is the binary exponent of \<open>n / d\<close>.
\<close>

function bitlen :: "int \<Rightarrow> int" where
  "bitlen n = (if n \<le> 0 then 0 else 1 + bitlen (n div 2))"
  by pat_completeness auto
termination
  by (relation "measure nat") auto

declare bitlen.simps [simp del]

definition floor_log2 :: "int \<Rightarrow> int \<Rightarrow> int" where
  "floor_log2 n d =
     (let k = bitlen n - bitlen d
      in if (if 0 \<le> k then d * 2 ^ nat k \<le> n else d \<le> n * 2 ^ nat (- k)) then k else k - 1)"

definition d_inf_mag :: int where
  "d_inf_mag = 0x7FF0000000000000"

definition d_round_mag :: "int \<Rightarrow> int \<Rightarrow> int \<Rightarrow> int" where
  "d_round_mag n d e =
     (let p = floor_log2 n d + e;
          t = max p (- 1022) - 52;
          s = e - t;
          num = (if 0 \<le> s then n * 2 ^ nat s else n);
          den = (if 0 \<le> s then d else d * 2 ^ nat (- s));
          q = num div den;
          r = num mod den;
          m = (if den < 2 * r \<or> (2 * r = den \<and> odd q) then q + 1 else q);
          bits = (t + 1074) * 2 ^ 52 + m
      in if d_inf_mag \<le> bits then d_inf_mag else bits)"

definition d_pack :: "bool \<Rightarrow> int \<Rightarrow> double" where
  "d_pack sg mag = word_of_int (if sg then 2 ^ 63 + mag else mag)"

text \<open>
  The NaN an invalid operation produces. Its sign and payload depend on the platform;
  no result below depends on them, only on \<open>d_is_nan\<close>.
\<close>

definition d_NaN :: double where
  "d_NaN = 0x7FF8000000000000"

definition d_add :: "double \<Rightarrow> double \<Rightarrow> double" where
  "d_add a b =
     (if d_is_nan a \<or> d_is_nan b then d_NaN
      else if d_is_inf a then (if d_is_inf b \<and> d_sign a \<noteq> d_sign b then d_NaN else a)
      else if d_is_inf b then b
      else
        let e = min (d_ulp a) (d_ulp b);
            x = d_smant a * 2 ^ nat (d_ulp a - e) + d_smant b * 2 ^ nat (d_ulp b - e)
        in if x = 0 then d_pack (d_sign a \<and> d_sign b) 0
           else d_pack (x < 0) (d_round_mag \<bar>x\<bar> 1 e))"

definition d_mul :: "double \<Rightarrow> double \<Rightarrow> double" where
  "d_mul a b =
     (if d_is_nan a \<or> d_is_nan b then d_NaN
      else if d_is_inf a \<or> d_is_inf b then
        (if d_is_zero a \<or> d_is_zero b then d_NaN else d_pack (d_sign a \<noteq> d_sign b) d_inf_mag)
      else if d_is_zero a \<or> d_is_zero b then d_pack (d_sign a \<noteq> d_sign b) 0
      else d_pack (d_sign a \<noteq> d_sign b) (d_round_mag (d_mant a * d_mant b) 1 (d_ulp a + d_ulp b)))"

definition d_div :: "double \<Rightarrow> double \<Rightarrow> double" where
  "d_div a b =
     (if d_is_nan a \<or> d_is_nan b then d_NaN
      else if d_is_inf a then (if d_is_inf b then d_NaN else d_pack (d_sign a \<noteq> d_sign b) d_inf_mag)
      else if d_is_inf b then d_pack (d_sign a \<noteq> d_sign b) 0
      else if d_is_zero b then (if d_is_zero a then d_NaN else d_pack (d_sign a \<noteq> d_sign b) d_inf_mag)
      else if d_is_zero a then d_pack (d_sign a \<noteq> d_sign b) 0
      else d_pack (d_sign a \<noteq> d_sign b) (d_round_mag (d_mant a) (d_mant b) (d_ulp a - d_ulp b)))"

text \<open>Conversion of an \<open>int\<close> to \<open>double\<close> (exact for 32-bit values).\<close>

definition d_of_int :: "int \<Rightarrow> double" where
  "d_of_int i = (if i = 0 then 0 else d_pack (i < 0) (d_round_mag \<bar>i\<bar> 1 0))"

section \<open>phase0/step1/exercise4-formatting: ugly-after.cpp\<close>

text \<open>
  \<open>std::sort(numbers.begin(), numbers.end())\<close> on a \<open>vector<int>\<close> with the default
  comparison: the standard fixes its result as the non-decreasing rearrangement of the
  range. On integers that list is unique, so the library's \<open>sort\<close> stands for it.
\<close>

definition std_sort :: "int list \<Rightarrow> int list" where
  "std_sort xs = sort xs"

definition formatting_numbers :: "int list" where
  "formatting_numbers = [3, 1, 4, 1, 5, 9, 2, 6]"

text \<open>The range-for loop of \<open>main\<close>: each element followed by one blank.\<close>

fun print_numbers :: "int list \<Rightarrow> string" where
  "print_numbers [] = []"
| "print_numbers (n # ns) = show_int n @ '' '' @ print_numbers ns"

definition formatting_main :: string where
  "formatting_main = print_numbers (std_sort formatting_numbers) @ endl"

section \<open>phase0/step1/hello-world: main.cpp\<close>

text \<open>
  \<open>std::getline(std::cin, name)\<close>: the characters up to the first line feed go to
  \<open>name\<close>; the line feed is taken from the stream and dropped; at end of input the
  characters read so far are the line. The result is the line and the rest of the input.
\<close>

fun getline :: "string \<Rightarrow> string \<times> string" where
  "getline [] = ([], [])"
| "getline (c # cs) =
     (if c = CHR 0x0A then ([], cs)
      else (case getline cs of (line, rest) \<Rightarrow> (c # line, rest)))"

text \<open>
  \<open>main\<close>, from standard input to the text written to standard output and the input
  left unread. The value of the macro \<open>__cplusplus\<close> is fixed by the compiler and is a
  parameter here.
\<close>

definition hello_main :: "nat \<Rightarrow> string \<Rightarrow> string \<times> string" where
  "hello_main cplusplus stdin =
     (case getline stdin of
        (name0, rest) \<Rightarrow>
          (let name = (if name0 = [] then ''World'' else name0)
           in (''Hello! What's your name? ''
                 @ ''Hello, '' @ name @ ''! Welcome to C++!'' @ endl
                 @ ''You're using C++ standard: '' @ show_nat cplusplus @ endl,
               rest)))"

section \<open>phase0/step1/exercise2-cmake-project-structure: main.cpp\<close>

text \<open>
  Modelled from the spec: the class \<open>Calculator\<close> (\<open>calculator.h\<close> and its
  implementation) is not among the sources; only its caller \<open>main\<close> is. The spec calls
  it a four-function calculator and fixes \<open>add(1,2) == 3\<close>.
\<close>

definition Calculator_add :: "int \<Rightarrow> int \<Rightarrow> int" where
  "Calculator_add a b = a + b"

text \<open>
  Modelled from the spec: \<open>Calculator::subtract\<close>, the second of the four functions.
\<close>

definition Calculator_subtract :: "int \<Rightarrow> int \<Rightarrow> int" where
  "Calculator_subtract a b = a - b"

text \<open>
  Modelled from the spec: \<open>Calculator::multiply\<close>, the third of the four functions.
\<close>

definition Calculator_multiply :: "int \<Rightarrow> int \<Rightarrow> int" where
  "Calculator_multiply a b = a * b"

text \<open>
  Modelled from the spec: \<open>Calculator::divide\<close>; dividing by zero raises an error,
  which \<open>main\<close> expects to be a \<open>std::invalid_argument\<close>. The text of the error is
  not given anywhere and is the parameter \<open>what\<close>. A quotient of integers truncates
  towards zero in C++.
\<close>

definition Calculator_divide :: "string \<Rightarrow> int \<Rightarrow> int \<Rightarrow> exn + int" where
  "Calculator_divide what a b =
     (if b = 0 then Inl (InvalidArgument what)
      else Inr (sgn a * sgn b * (\<bar>a\<bar> div \<bar>b\<bar>)))"

text \<open>
  \<open>main\<close> of the calculator exercise, from the source: three results on standard
  output, then the quotient inside \<open>try\<close>; the handler writes to standard error.
  The result is the pair of both streams.
\<close>

definition calculator_main :: "string \<Rightarrow> string \<times> string" where
  "calculator_main what =
     (let out = show_int (Calculator_add 1 2) @ endl
                @ show_int (Calculator_subtract 1 2) @ endl
                @ show_int (Calculator_multiply 1 2) @ endl
      in case Calculator_divide what 1 0 of
           Inr q \<Rightarrow> (out @ show_int q @ endl, [])
         | Inl (InvalidArgument msg) \<Rightarrow> (out, ''Error: '' @ msg @ endl))"

section \<open>phase0/step1/exercise3-debugging-practice: debug_me.cpp\<close>

text \<open>
  \<open>numbers[i]\<close> on a \<open>std::vector\<close> does not check its index. A read at or past
  \<open>size()\<close> is undefined behaviour; the model stops there and reports the index.
\<close>

datatype fault = OutOfBounds nat

definition vec_at :: "int list \<Rightarrow> nat \<Rightarrow> fault + int" where
  "vec_at v i = (if i < length v then Inr (v ! i) else Inl (OutOfBounds i))"

text \<open>
  The loop of \<open>calculateSum\<close> with its counter \<open>i\<close>, the running sum (\<open>acc\<close>, as
  \<open>sum\<close> is taken in HOL) and the text written so far. The condition is the source's
  \<open>i <= numbers.size()\<close>; the read \<open>numbers[i]\<close> comes first in the body, before the
  line is printed. The sum is a mathematical integer: the results are about the reads,
  not about the total.
\<close>

function calculateSum_loop :: "int list \<Rightarrow> nat \<Rightarrow> int \<Rightarrow> string \<Rightarrow> string \<times> (fault + int)" where
  "calculateSum_loop numbers i acc out =
     (if i \<le> length numbers then
        (case vec_at numbers i of
           Inl f \<Rightarrow> (out, Inl f)
         | Inr x \<Rightarrow>
             calculateSum_loop numbers (i + 1) (acc + x)
               (out @ ''Adding '' @ show_int x @ '' at index '' @ show_nat i @ endl))
      else (out, Inr acc))"
  by pat_completeness auto
termination
  by (relation "measure (\<lambda>(numbers, i, acc, out). Suc (length numbers) - i)")
     (auto simp: vec_at_def split: if_splits)

declare calculateSum_loop.simps [simp del]

definition calculateSum :: "int list \<Rightarrow> string \<times> (fault + int)" where
  "calculateSum numbers = calculateSum_loop numbers 0 0 []"

definition debug_data :: "int list" where
  "debug_data = [1, 2, 3, 4, 5]"

definition debug_main :: "string \<times> fault option" where
  "debug_main =
     (let out = ''Calculating sum of: '' @ print_numbers debug_data @ endl
      in case calculateSum debug_data of
           (trace, Inl f) \<Rightarrow> (out @ trace, Some f)
         | (trace, Inr result) \<Rightarrow> (out @ trace @ ''Sum: '' @ show_int result @ endl, None))"

section \<open>phase1/step1/exercise1-basic-market-data: basic_markte_data.cpp\<close>

text \<open>
  The struct \<open>MarketData\<close>. Its fields carry the prefix \<open>md_\<close>, since the order record
  below has fields of the same names. The symbol is the text held in the
  \<open>std::array<char, 9>\<close>.
\<close>

record MarketData =
  md_symbol :: string
  md_price :: double
  md_volume :: int
  md_timestamp :: int

text \<open>The manager's only member is the vector \<open>marketData\<close>.\<close>

definition addMarketData :: "MarketData list \<Rightarrow> MarketData \<Rightarrow> MarketData list" where
  "addMarketData marketData d = marketData @ [d]"

fun highestVolume_loop :: "MarketData list \<Rightarrow> int \<Rightarrow> int" where
  "highestVolume_loop [] highestVolume = highestVolume"
| "highestVolume_loop (d # ds) highestVolume =
     highestVolume_loop ds (if md_volume d > highestVolume then md_volume d else highestVolume)"

text \<open>
  \<open>findHighestVolume\<close>: the text it prints and the manager's vector after the call.
\<close>

definition findHighestVolume :: "MarketData list \<Rightarrow> string \<times> MarketData list" where
  "findHighestVolume marketData =
     (''Highest Volume: '' @ show_int (highestVolume_loop marketData 0) @ endl, marketData)"

section \<open>phase1/step1/exercise2-order-processing-system: order_processing_system.cpp\<close>

text \<open>
  \<open>enum class OrderType : char\<close> has \<open>char\<close> as its underlying type, so a value of
  the type can be any character; the three enumerators are \<open>'M'\<close>, \<open>'L'\<close> and \<open>'S'\<close>.
\<close>

type_synonym OrderType = char

definition MARKET :: OrderType where
  "MARKET = CHR ''M''"

definition LIMIT :: OrderType where
  "LIMIT = CHR ''L''"

definition STOP :: OrderType where
  "STOP = CHR ''S''"

record Order =
  orderId :: int
  symbol :: string
  quantity :: int
  price :: double
  orderType :: OrderType

text \<open>
  The constructor \<open>Order::Order\<close>, its checks in the source's order. A \<open>throw\<close> is
  \<open>Inl\<close>; otherwise the object holds the five arguments. The comparison
  \<open>prc <= 0\<close> converts the \<open>0\<close> to \<open>double\<close>.
\<close>

definition Order_ctor :: "int \<Rightarrow> string \<Rightarrow> int \<Rightarrow> double \<Rightarrow> OrderType \<Rightarrow> exn + Order" where
  "Order_ctor ident symb qty prc type =
     (if type \<noteq> MARKET \<and> type \<noteq> LIMIT \<and> type \<noteq> STOP then
        Inl (InvalidArgument ''Invalid order type'')
      else if d_le prc (d_of_int 0) then
        Inl (InvalidArgument ''Price must be positive'')
      else if qty > 100000 \<or> qty < 1 then
        Inl (InvalidArgument ''Quantity must be between 1 and 100000'')
      else if length symb > 8 then
        Inl (InvalidArgument ''Symbol must be 8 chars max'')
      else
        Inr \<lparr>orderId = ident, symbol = symb, quantity = qty, price = prc, orderType = type\<rparr>)"



text \<open>The system's only member is the vector \<open>orders\<close>.\<close>

definition addOrder :: "Order list \<Rightarrow> Order \<Rightarrow> Order list" where
  "addOrder orders order = orders @ [order]"

fun getOrderById :: "Order list \<Rightarrow> int \<Rightarrow> exn + Order" where
  "getOrderById [] ident = Inl (InvalidArgument ''Order not found'')"
| "getOrderById (order # orders) ident =
     (if orderId order = ident then Inr order else getOrderById orders ident)"

fun getOrderBySymbol :: "Order list \<Rightarrow> string \<Rightarrow> exn + Order" where
  "getOrderBySymbol [] symb = Inl (InvalidArgument ''Order not found'')"
| "getOrderBySymbol (order # orders) symb =
     (if symbol order = symb then Inr order else getOrderBySymbol orders symb)"









text \<open>
  The bounds the spec attributes to every stored order: quantity from 1 to 100000, price
  strictly positive, symbol of at most 8 characters, one of the three order types.
\<close>

definition order_in_bounds :: "Order \<Rightarrow> bool" where
  "order_in_bounds order =
     (1 \<le> quantity order \<and> quantity order \<le> 100000
      \<and> d_lt (d_of_int 0) (price order)
      \<and> length (symbol order) \<le> 8
      \<and> (orderType order = MARKET \<or> orderType order = LIMIT \<or> orderType order = STOP))"

text \<open>What the constructor's four checks establish, in the code's own terms.\<close>

definition order_checked :: "Order \<Rightarrow> bool" where
  "order_checked order =
     (1 \<le> quantity order \<and> quantity order \<le> 100000
      \<and> \<not> d_le (price order) (d_of_int 0)
      \<and> length (symbol order) \<le> 8
      \<and> (orderType order = MARKET \<or> orderType order = LIMIT \<or> orderType order = STOP))"

section \<open>phase1/step1/exercise3-price-calculator: price_calculator.cpp\<close>

text \<open>
  \<open>calculateVWAP\<close>: the range-for loop over the pairs, with the two running totals.
  \<open>bid.second\<close> is an \<open>int\<close> and is converted to \<open>double\<close> in both statements.
\<close>

fun calculateVWAP_loop :: "(double \<times> int) list \<Rightarrow> double \<Rightarrow> double \<Rightarrow> double \<times> double" where
  "calculateVWAP_loop [] totalVolume totalPriceVolume = (totalVolume, totalPriceVolume)"
| "calculateVWAP_loop (bid # bids) totalVolume totalPriceVolume =
     calculateVWAP_loop bids
       (d_add totalVolume (d_of_int (snd bid)))
       (d_add totalPriceVolume (d_mul (fst bid) (d_of_int (snd bid))))"

definition calculateVWAP :: "(double \<times> int) list \<Rightarrow> double" where
  "calculateVWAP bids =
     (case calculateVWAP_loop bids (d_of_int 0) (d_of_int 0) of
        (totalVolume, totalPriceVolume) \<Rightarrow> d_div totalPriceVolume totalVolume)"

text \<open>
  \<open>calculateVWAPWithPointers\<close>: \<open>ptr\<close> and \<open>endPtr\<close> are offsets from
  \<open>bids.data()\<close>; the loop runs while \<open>ptr < endPtr\<close> and reads \<open>*ptr\<close>.
\<close>

function calculateVWAPWithPointers_loop ::
  "(double \<times> int) list \<Rightarrow> nat \<Rightarrow> nat \<Rightarrow> double \<Rightarrow> double \<Rightarrow> double \<times> double" where
  "calculateVWAPWithPointers_loop bids ptr endPtr totalVolume totalPriceVolume =
     (if ptr < endPtr then
        calculateVWAPWithPointers_loop bids (ptr + 1) endPtr
          (d_add totalVolume (d_of_int (snd (bids ! ptr))))
          (d_add totalPriceVolume (d_mul (fst (bids ! ptr)) (d_of_int (snd (bids ! ptr)))))
      else (totalVolume, totalPriceVolume))"
  by pat_completeness auto
termination
  by (relation "measure (\<lambda>(bids, ptr, endPtr, tv, tpv). endPtr - ptr)") auto

declare calculateVWAPWithPointers_loop.simps [simp del]

definition calculateVWAPWithPointers :: "(double \<times> int) list \<Rightarrow> double" where
  "calculateVWAPWithPointers bids =
     (if bids = [] then 0
      else
        (case calculateVWAPWithPointers_loop bids 0 (length bids) (d_of_int 0) (d_of_int 0) of
           (totalVolume, totalPriceVolume) \<Rightarrow> d_div totalPriceVolume totalVolume))"

text \<open>
  The claim's description of both functions, to compare them with: the total of price
  times volume divided by the total volume, both totals accumulated from zero in the
  order of the vector.
\<close>

definition total_volume :: "(double \<times> int) list \<Rightarrow> double" where
  "total_volume bids = foldl (\<lambda>t bid. d_add t (d_of_int (snd bid))) (d_of_int 0) bids"

definition total_price_volume :: "(double \<times> int) list \<Rightarrow> double" where
  "total_price_volume bids =
     foldl (\<lambda>t bid. d_add t (d_mul (fst bid) (d_of_int (snd bid)))) (d_of_int 0) bids"

definition vwap_spec :: "(double \<times> int) list \<Rightarrow> double" where
  "vwap_spec bids = d_div (total_price_volume bids) (total_volume bids)"

section \<open>phase1/step1/exercise4-logging-and-io: logging.cpp\<close>

text \<open>
  The spdlog logger: its level and the records it has accepted. A record is accepted when
  its level is not below the logger's level.
\<close>

datatype level_enum = trace | debug | info | warn | err | critical | off

fun level_num :: "level_enum \<Rightarrow> nat" where
  "level_num trace = 0"
| "level_num debug = 1"
| "level_num info = 2"
| "level_num warn = 3"
| "level_num err = 4"
| "level_num critical = 5"
| "level_num off = 6"

record MarketLogger =
  log_directory :: string
  log_level :: level_enum
  log_records :: "(level_enum \<times> string) list"

definition logger_log :: "level_enum \<Rightarrow> string \<Rightarrow> MarketLogger \<Rightarrow> MarketLogger" where
  "logger_log lvl msg lg =
     (if level_num (log_level lg) \<le> level_num lvl
      then lg\<lparr>log_records := log_records lg @ [(lvl, msg)]\<rparr> else lg)"

text \<open>
  The files: the content of each path (\<open>None\<close> for a path that does not exist),
  whether \<open>std::ofstream\<close> can open the path for appending, and how much of a write
  to the path reaches the file: \<open>None\<close> when all of it does, \<open>Some k\<close> when the
  stream fails after \<open>k\<close> characters. Opening with \<open>std::ios::app\<close> creates a
  missing file; what is written goes to the end. A write that fails sets the error state
  of the stream and does nothing else: \<open>operator<<\<close> and \<open>close()\<close> do not throw,
  and the source never reads that state.
\<close>

record filesystem =
  contents :: "string \<Rightarrow> string option"
  can_open :: "string \<Rightarrow> bool"
  write_limit :: "string \<Rightarrow> nat option"

definition file_text :: "filesystem \<Rightarrow> string \<Rightarrow> string" where
  "file_text fs path = (case contents fs path of None \<Rightarrow> [] | Some text \<Rightarrow> text)"

definition written :: "filesystem \<Rightarrow> string \<Rightarrow> string \<Rightarrow> string" where
  "written fs path text = (case write_limit fs path of None \<Rightarrow> text | Some k \<Rightarrow> take k text)"

definition append_to_file :: "string \<Rightarrow> string \<Rightarrow> filesystem \<Rightarrow> filesystem" where
  "append_to_file path text fs =
     fs\<lparr>contents := (contents fs)(path \<mapsto> file_text fs path @ written fs path text)\<rparr>"

text \<open>
  \<open>log_market_data\<close>. The two renderings of a \<open>double\<close> are parameters: \<open>fixed2\<close>
  for the format \<open>{:.2f}\<close> of the log message, \<open>show_double\<close> for \<open>operator<<\<close>.
  spdlog reports its own failures through its error handler and an \<open>ofstream\<close> does not
  throw, so nothing in the \<open>try\<close> block raises and the handler has no branch here.
  The only test is \<open>is_open()\<close>: once the file is open the function writes, closes and
  returns \<open>true\<close>, whatever became of the write. The result is the returned flag, the
  logger and the files.
\<close>

definition market_data_row :: "(double \<Rightarrow> string) \<Rightarrow> string \<Rightarrow> double \<Rightarrow> int \<Rightarrow> 64 word \<Rightarrow> string" where
  "market_data_row show_double symb prc volume timestamp =
     show_nat (unat timestamp) @ '','' @ show_double prc @ '','' @ show_int volume @ '','' @ symb"

definition log_market_data ::
  "(double \<Rightarrow> string) \<Rightarrow> (double \<Rightarrow> string) \<Rightarrow> string \<Rightarrow> double \<Rightarrow> int \<Rightarrow> 64 word
     \<Rightarrow> MarketLogger \<times> filesystem \<Rightarrow> bool \<times> MarketLogger \<times> filesystem" where
  "log_market_data show_double fixed2 symb prc volume timestamp st =
     (case st of
        (lg, fs) \<Rightarrow>
          (let lg1 = logger_log info
                 (''Market Data: Symbol='' @ symb @ '', Price='' @ fixed2 prc
                    @ '', Volume='' @ show_int volume
                    @ '', Timestamp='' @ show_nat (unat timestamp)) lg;
               path = log_directory lg @ ''_market_data.csv''
           in if can_open fs path then
                (True, lg1,
                 append_to_file path (market_data_row show_double symb prc volume timestamp @ endl) fs)
              else
                (False, logger_log err ''Failed to open CSV file for market data'' lg1, fs)))"

definition order_row :: "(double \<Rightarrow> string) \<Rightarrow> int \<Rightarrow> string \<Rightarrow> int \<Rightarrow> double \<Rightarrow> char \<Rightarrow> string" where
  "order_row show_double order_id symb qty prc order_type =
     show_int order_id @ '','' @ symb @ '','' @ show_int qty @ '','' @ show_double prc
       @ '','' @ [order_type]"

definition log_order ::
  "(double \<Rightarrow> string) \<Rightarrow> (double \<Rightarrow> string) \<Rightarrow> int \<Rightarrow> string \<Rightarrow> int \<Rightarrow> double \<Rightarrow> char
     \<Rightarrow> MarketLogger \<times> filesystem \<Rightarrow> bool \<times> MarketLogger \<times> filesystem" where
  "log_order show_double fixed2 order_id symb qty prc order_type st =
     (case st of
        (lg, fs) \<Rightarrow>
          (let type_str = (if order_type = CHR ''B'' then ''BUY'' else ''SELL'');
               lg1 = logger_log info
                 (''Order: ID='' @ show_int order_id @ '', Symbol='' @ symb
                    @ '', Type='' @ type_str @ '', Quantity='' @ show_int qty
                    @ '', Price='' @ fixed2 prc) lg;
               path = log_directory lg @ ''_orders.csv''
           in if can_open fs path then
                (True, lg1,
                 append_to_file path (order_row show_double order_id symb qty prc order_type @ endl) fs)
              else
                (False, logger_log err ''Failed to open CSV file for orders'' lg1, fs)))"

section \<open>Data for the statements\<close>

text \<open>The line the loop of \<open>calculateSum\<close> prints for an index within the vector.\<close>

definition adding_line :: "int list \<Rightarrow> nat \<Rightarrow> string" where
  "adding_line numbers i =
     ''Adding '' @ show_int (numbers ! i) @ '' at index '' @ show_nat i @ endl"




text \<open>An order whose price is a NaN.\<close>

definition nan_order :: Order where
  "nan_order = \<lparr>orderId = 1, symbol = ''AAPL'', quantity = 100, price = d_NaN, orderType = MARKET\<rparr>"

text \<open>
  A logger as \<open>main\<close> of the logging exercise sets it up, and three file systems: one
  where every path can be opened and written, one where no path can be opened, and one
  where every path can be opened and every write fails at once (a full disk).
\<close>

definition main_logger :: MarketLogger where
  "main_logger = \<lparr>log_directory = ''market_data'', log_level = debug, log_records = []\<rparr>"

definition fs_open :: filesystem where
  "fs_open = \<lparr>contents = (\<lambda>path. None), can_open = (\<lambda>path. True),
     write_limit = (\<lambda>path. None)\<rparr>"

definition fs_closed :: filesystem where
  "fs_closed = \<lparr>contents = (\<lambda>path. None), can_open = (\<lambda>path. False),
     write_limit = (\<lambda>path. None)\<rparr>"

definition fs_full :: filesystem where
  "fs_full = \<lparr>contents = (\<lambda>path. None), can_open = (\<lambda>path. True),
     write_limit = (\<lambda>path. Some 0)\<rparr>"

text \<open>Two market-data records with the volumes 5 and 7, and one with the volume -3.\<close>

definition md5 :: MarketData where
  "md5 = \<lparr>md_symbol = ''AAPL'', md_price = d_of_int 10, md_volume = 5, md_timestamp = 1713859200\<rparr>"

definition md7 :: MarketData where
  "md7 = \<lparr>md_symbol = ''AAPL'', md_price = d_of_int 20, md_volume = 7, md_timestamp = 1713859201\<rparr>"

definition md_neg :: MarketData where
  "md_neg = \<lparr>md_symbol = ''AAPL'', md_price = d_of_int 30, md_volume = - 3, md_timestamp = 1713859202\<rparr>"

section \<open>Results\<close>

subsection \<open>Text output\<close>

lemma show_int_small:
  "show_int 0 = ''0''" "show_int 1 = ''1''" "show_int 2 = ''2''" "show_int 3 = ''3''"
  "show_int 5 = ''5''" "show_int 7 = ''7''" "show_int (- 1) = ''-1''"
  "show_int 100 = ''100''" "show_int 200 = ''200''" "show_int 300 = ''300''"
  "show_int 500 = ''500''" "show_int 1000 = ''1000''" "show_int 1001 = ''1001''"
  by (simp_all add: show_int_def show_nat.simps digit_char_def)

subsection \<open>Doubles\<close>

lemma d_of_int_0: "d_of_int 0 = 0"
  by (simp add: d_of_int_def)

lemma d_NaN_is_nan: "d_is_nan d_NaN"
  by (simp add: d_is_nan_def d_NaN_def d_expo_def d_frac_def)

lemma d_key_zero: "d_key 0 = 0"
  by (simp add: d_key_def d_sign_def)

lemma zero_not_nan: "\<not> d_is_nan 0"
  by (simp add: d_is_nan_def d_expo_def)

lemma d_le_zero_iff: "d_le p (d_of_int 0) \<longleftrightarrow> \<not> d_is_nan p \<and> d_key p \<le> 0"
  by (simp add: d_le_def d_of_int_0 d_key_zero zero_not_nan)

lemma d_lt_zero_iff: "d_lt (d_of_int 0) p \<longleftrightarrow> \<not> d_is_nan p \<and> 0 < d_key p"
  by (simp add: d_lt_def d_of_int_0 d_key_zero zero_not_nan)

text \<open>
  \<open>prc <= 0\<close> is false for a strictly positive price and also for a NaN.
\<close>

lemma not_le_zero_iff: "\<not> d_le p (d_of_int 0) \<longleftrightarrow> d_is_nan p \<or> d_lt (d_of_int 0) p"
  by (auto simp: d_le_zero_iff d_lt_zero_iff)

lemma zero_div_zero: "d_div (d_of_int 0) (d_of_int 0) = d_NaN"
  by (simp add: d_div_def d_of_int_0 zero_not_nan d_is_inf_def d_is_zero_def d_expo_def d_frac_def)



text \<open>
  The arithmetic on known values: 0.1 + 0.2 is 0.30000000000000004, 1.0 / 3.0 is
  0.333... rounded down, and 100 * 10 is exactly 1000.
\<close>

lemma d_add_tenth_fifth: "d_add 0x3FB999999999999A 0x3FC999999999999A = 0x3FD3333333333334"
  by code_simp

lemma d_div_third: "d_div 0x3FF0000000000000 0x4008000000000000 = 0x3FD5555555555555"
  by code_simp

lemma d_mul_exact: "d_mul (d_of_int 100) (d_of_int 10) = d_of_int 1000"
  by code_simp

subsection \<open>The formatting exercise\<close>

lemma std_sort_unique:
  assumes "mset ys = mset xs" and "sorted ys"
  shows "std_sort xs = ys"
  unfolding std_sort_def using assms by (metis properties_for_sort)

lemma std_sort_formatting_numbers: "std_sort formatting_numbers = [1, 1, 2, 3, 4, 5, 6, 9]"
  by (rule std_sort_unique) (simp_all add: formatting_numbers_def)

text \<open>
  Claim C5. The formatting exercise sorts the literal vector 3 1 4 1 5 9 2 6; the sequence
  it then prints is 1 1 2 3 4 5 6 9, each number followed by a blank and the line closed
  by \<open>std::endl\<close>; that sequence is non-decreasing and a permutation of the input.
\<close>

theorem formatting_main_sorted:
  "std_sort formatting_numbers = [1, 1, 2, 3, 4, 5, 6, 9]
   \<and> sorted (std_sort formatting_numbers)
   \<and> mset (std_sort formatting_numbers) = mset formatting_numbers
   \<and> formatting_main = ''1 1 2 3 4 5 6 9 '' @ endl"
proof -
  have out: "print_numbers [1, 1, 2, 3, 4, 5, 6, 9] = ''1 1 2 3 4 5 6 9 ''"
    by code_simp
  have "formatting_main = ''1 1 2 3 4 5 6 9 '' @ endl"
    unfolding formatting_main_def std_sort_formatting_numbers out ..
  moreover have "sorted (std_sort formatting_numbers)"
    unfolding std_sort_formatting_numbers by simp
  moreover have "mset (std_sort formatting_numbers) = mset formatting_numbers"
    unfolding std_sort_formatting_numbers by (simp add: formatting_numbers_def)
  ultimately show ?thesis
    using std_sort_formatting_numbers by blast
qed

subsection \<open>Hello world\<close>

lemma getline_takeWhile:
  "getline stdin =
     (takeWhile (\<lambda>c. c \<noteq> CHR 0x0A) stdin,
      drop (Suc (length (takeWhile (\<lambda>c. c \<noteq> CHR 0x0A) stdin))) stdin)"
  by (induction stdin) auto

text \<open>
  Claim C9. The hello-world program reads one line from standard input: the characters
  before the first line feed, with that line feed consumed and everything after it left
  unread. It greets by the line's content, except that an empty line is replaced by the
  name World: for empty input, and for input that starts with a line feed, the greeting is
  "Hello, World! Welcome to C++!".
\<close>

theorem hello_main_greeting:
  "hello_main cplusplus stdin =
     (''Hello! What's your name? ''
        @ ''Hello, ''
        @ (if takeWhile (\<lambda>c. c \<noteq> CHR 0x0A) stdin = [] then ''World''
           else takeWhile (\<lambda>c. c \<noteq> CHR 0x0A) stdin)
        @ ''! Welcome to C++!'' @ endl
        @ ''You're using C++ standard: '' @ show_nat cplusplus @ endl,
      drop (Suc (length (takeWhile (\<lambda>c. c \<noteq> CHR 0x0A) stdin))) stdin)
   \<and> hello_main cplusplus [] =
     (''Hello! What's your name? '' @ ''Hello, World! Welcome to C++!'' @ endl
        @ ''You're using C++ standard: '' @ show_nat cplusplus @ endl, [])
   \<and> hello_main cplusplus (CHR 0x0A # rest) =
     (''Hello! What's your name? '' @ ''Hello, World! Welcome to C++!'' @ endl
        @ ''You're using C++ standard: '' @ show_nat cplusplus @ endl, rest)"
  by (simp add: hello_main_def getline_takeWhile)

subsection \<open>The calculator\<close>

text \<open>
  Claim C6. In the calculator exercise \<open>add(1,2)\<close> is 3, and \<open>divide(1,0)\<close> raises an
  invalid-argument failure; \<open>main\<close> prints the three results 3, -1 and 2 to standard
  output, no quotient, and the line "Error: " with the failure's text to standard error.
\<close>

theorem calculator_main_divide_by_zero:
  "Calculator_add 1 2 = 3
   \<and> Calculator_divide what 1 0 = Inl (InvalidArgument what)
   \<and> calculator_main what =
       (''3'' @ endl @ ''-1'' @ endl @ ''2'' @ endl, ''Error: '' @ what @ endl)"
  by (simp add: calculator_main_def Calculator_add_def Calculator_subtract_def
      Calculator_multiply_def Calculator_divide_def show_int_small)

subsection \<open>The debugging exercise\<close>

lemma calculateSum_loop_faults:
  "i \<le> length numbers \<Longrightarrow>
   calculateSum_loop numbers i acc out =
     (out @ concat (map (adding_line numbers) [i..<length numbers]),
      Inl (OutOfBounds (length numbers)))"
proof (induction "length numbers - i" arbitrary: i acc out)
  case 0
  then have "i = length numbers" by simp
  then show ?case
    by (simp add: calculateSum_loop.simps [of numbers "length numbers"] vec_at_def)
next
  case (Suc n)
  then have lt: "i < length numbers" and n: "n = length numbers - (i + 1)" by simp_all
  have "calculateSum_loop numbers i acc out =
          calculateSum_loop numbers (i + 1) (acc + numbers ! i) (out @ adding_line numbers i)"
    using lt by (simp add: calculateSum_loop.simps [of numbers i] vec_at_def adding_line_def)
  also have "\<dots> =
      ((out @ adding_line numbers i) @ concat (map (adding_line numbers) [i + 1..<length numbers]),
       Inl (OutOfBounds (length numbers)))"
    using Suc.hyps(1) [OF n] lt by simp
  finally show ?case
    using lt by (simp add: upt_conv_Cons)
qed

lemma calculateSum_faults:
  "calculateSum numbers =
     (concat (map (adding_line numbers) [0..<length numbers]), Inl (OutOfBounds (length numbers)))"
  by (simp add: calculateSum_def calculateSum_loop_faults)

text \<open>\<open>main\<close> of the exercise, on its vector 1 2 3 4 5, ends in the read at index 5.\<close>

lemma debug_main_faults: "snd debug_main = Some (OutOfBounds 5)"
  by (simp add: debug_main_def calculateSum_faults debug_data_def)

text \<open>
  Claim C3. With the loop bound \<open>i <= numbers.size()\<close>, \<open>calculateSum\<close> on a non-empty
  vector reads every element in turn, printing a line for each, and in its final
  iteration indexes the vector at \<open>numbers.size()\<close>, one past the last valid index
  \<open>numbers.size() - 1\<close>: that read is out of bounds, and the function never returns a
  sum.
\<close>

theorem calculateSum_reads_past_end:
  assumes "numbers \<noteq> []"
  shows "calculateSum numbers =
           (concat (map (adding_line numbers) [0..<length numbers]),
            Inl (OutOfBounds (length numbers)))
         \<and> vec_at numbers (length numbers) = Inl (OutOfBounds (length numbers))
         \<and> vec_at numbers (length numbers - 1) = Inr (last numbers)"
  using assms by (simp add: calculateSum_faults vec_at_def last_conv_nth)

theorem calculateSum_reads_past_end_witness:
  "debug_data \<noteq> []
   \<and> snd (calculateSum debug_data) = Inl (OutOfBounds 5)
   \<and> vec_at debug_data 5 = Inl (OutOfBounds 5)
   \<and> vec_at debug_data 4 = Inr 5"
proof -
  have ne: "debug_data \<noteq> []" by (simp add: debug_data_def)
  have len: "length debug_data = 5" "last debug_data = 5" by (simp_all add: debug_data_def)
  show ?thesis
    using ne calculateSum_reads_past_end [OF ne] by (simp add: len)
qed

subsection \<open>Basic market data\<close>

lemma highestVolume_loop_Max:
  "highestVolume_loop ds h = Max (insert h (md_volume ` set ds))"
proof (induction ds arbitrary: h)
  case Nil
  show ?case by simp
next
  case (Cons d ds)
  have "Max (insert (max h (md_volume d)) (md_volume ` set ds))
        = Max (insert h (insert (md_volume d) (md_volume ` set ds)))"
    by (cases "set ds = {}") (simp_all add: max.assoc)
  moreover have "highestVolume_loop (d # ds) h = highestVolume_loop ds (max h (md_volume d))"
    by (simp add: max_def)
  ultimately show ?case
    using Cons.IH [of "max h (md_volume d)"] by (simp only: list.set image_insert)
qed

lemma foldl_addMarketData: "foldl addMarketData marketData records = marketData @ records"
  by (induction records arbitrary: marketData) (simp_all add: addMarketData_def)

text \<open>
  Claim C10. After the records \<open>records\<close> have been added to an empty manager,
  \<open>findHighestVolume\<close> prints the maximum of 0 and all their volumes: it prints 0 when
  there is no record or no volume is positive, and the largest volume when some volume is
  positive. The vector of records is the same after the call.
\<close>

theorem findHighestVolume_max:
  "fst (findHighestVolume (foldl addMarketData [] records)) =
       ''Highest Volume: '' @ show_int (Max (insert 0 (md_volume ` set records))) @ endl
   \<and> snd (findHighestVolume (foldl addMarketData [] records)) = foldl addMarketData [] records
   \<and> ((\<forall>d \<in> set records. md_volume d \<le> 0) \<longrightarrow>
        fst (findHighestVolume (foldl addMarketData [] records)) = ''Highest Volume: 0'' @ endl)
   \<and> ((\<exists>d \<in> set records. 0 < md_volume d) \<longrightarrow>
        fst (findHighestVolume (foldl addMarketData [] records)) =
          ''Highest Volume: '' @ show_int (Max (md_volume ` set records)) @ endl)"
proof -
  let ?V = "md_volume ` set records"
  have out: "fst (findHighestVolume (foldl addMarketData [] records)) =
       ''Highest Volume: '' @ show_int (Max (insert 0 ?V)) @ endl"
    by (simp add: findHighestVolume_def foldl_addMarketData highestVolume_loop_Max)
  have unchanged: "snd (findHighestVolume (foldl addMarketData [] records)) = foldl addMarketData [] records"
    by (simp add: findHighestVolume_def)
  have none: "Max (insert 0 ?V) = 0" if "\<forall>d \<in> set records. md_volume d \<le> 0"
  proof (rule Max_eqI)
    show "finite (insert 0 ?V)" by simp
    show "0 \<in> insert 0 ?V" by simp
    show "y \<le> 0" if "y \<in> insert 0 ?V" for y
      using that \<open>\<forall>d \<in> set records. md_volume d \<le> 0\<close> by auto
  qed
  have some: "Max (insert 0 ?V) = Max ?V" if "\<exists>d \<in> set records. 0 < md_volume d"
  proof -
    from that obtain d where d: "d \<in> set records" "0 < md_volume d" by blast
    then have "?V \<noteq> {}" by auto
    moreover have "md_volume d \<le> Max ?V" using d by simp
    then have "0 \<le> Max ?V" using d by linarith
    ultimately show ?thesis by (simp add: max_def)
  qed
  show ?thesis
    using out unchanged none some by (simp add: show_int_small)
qed

theorem findHighestVolume_max_witness:
  "md_volume md_neg \<le> 0
   \<and> fst (findHighestVolume (foldl addMarketData [] [md_neg])) = ''Highest Volume: 0'' @ endl
   \<and> 0 < md_volume md5
   \<and> fst (findHighestVolume (foldl addMarketData [] [md5, md7, md_neg])) = ''Highest Volume: 7'' @ endl"
proof -
  have a: "\<forall>d \<in> set [md_neg]. md_volume d \<le> 0"
    by (simp add: md_neg_def)
  have b: "\<exists>d \<in> set [md5, md7, md_neg]. 0 < md_volume d"
    by (simp add: md5_def)
  have m: "Max (md_volume ` set [md5, md7, md_neg]) = 7"
    by (simp add: md5_def md7_def md_neg_def)
  from a findHighestVolume_max [of "[md_neg]"]
  have c: "fst (findHighestVolume (foldl addMarketData [] [md_neg])) = ''Highest Volume: 0'' @ endl"
    by blast
  from b findHighestVolume_max [of "[md5, md7, md_neg]"]
  have "fst (findHighestVolume (foldl addMarketData [] [md5, md7, md_neg])) =
          ''Highest Volume: '' @ show_int (Max (md_volume ` set [md5, md7, md_neg])) @ endl"
    by blast
  then have d: "fst (findHighestVolume (foldl addMarketData [] [md5, md7, md_neg])) =
          ''Highest Volume: 7'' @ endl"
    unfolding m by (simp add: show_int_small)
  have "md_volume md_neg \<le> 0" "0 < md_volume md5"
    by (simp_all add: md_neg_def md5_def)
  with c d show ?thesis by blast
qed

subsection \<open>Order processing: the constructor\<close>



lemma Order_ctor_checked:
  "Order_ctor ident symb qty prc type = Inr order \<Longrightarrow> order_checked order"
  by (auto simp: Order_ctor_def order_checked_def split: if_splits)

text \<open>
  For a price that is a number, the four checks are the bounds of the spec; the two differ
  at a NaN price only.
\<close>

lemma order_checked_in_bounds:
  "order_checked order \<Longrightarrow> \<not> d_is_nan (price order) \<Longrightarrow> order_in_bounds order"
  by (auto simp: order_checked_def order_in_bounds_def not_le_zero_iff)

lemma order_in_bounds_checked: "order_in_bounds order \<Longrightarrow> order_checked order"
  by (auto simp: order_checked_def order_in_bounds_def not_le_zero_iff)

text \<open>
  Claim C1, at the input where the code departs from it. The constructor called with the
  order type MARKET, the quantity 100, the symbol AAPL and a NaN price throws nothing and
  returns the order with that price, although a NaN is not strictly positive: the test
  \<open>prc <= 0\<close> is false for it.
\<close>

theorem Order_ctor_accepts_NaN_price:
  "Order_ctor 1 ''AAPL'' 100 d_NaN MARKET = Inr nan_order
   \<and> price nan_order = d_NaN
   \<and> d_is_nan d_NaN
   \<and> \<not> d_lt (d_of_int 0) d_NaN"
  by (simp add: Order_ctor_def nan_order_def MARKET_def d_le_zero_iff d_lt_zero_iff d_NaN_is_nan)

subsection \<open>Order processing: the stored orders\<close>

lemma getOrderById_not_found:
  "(\<forall>order \<in> set orders. orderId order \<noteq> ident) \<Longrightarrow>
   getOrderById orders ident = Inl (InvalidArgument ''Order not found'')"
  by (induction orders) auto

lemma getOrderBySymbol_not_found:
  "(\<forall>order \<in> set orders. symbol order \<noteq> symb) \<Longrightarrow>
   getOrderBySymbol orders symb = Inl (InvalidArgument ''Order not found'')"
  by (induction orders) auto

lemma getOrderById_found:
  "getOrderById orders ident = Inr order \<Longrightarrow> order \<in> set orders \<and> orderId order = ident"
  by (induction orders) (auto split: if_splits)

lemma getOrderBySymbol_found:
  "getOrderBySymbol orders symb = Inr order \<Longrightarrow> order \<in> set orders \<and> symbol order = symb"
  by (induction orders) (auto split: if_splits)

text \<open>
  What does hold of the stored orders: adding an order that a constructor call returned
  keeps every stored order within the four checks, and the lookups return stored orders.
\<close>

lemma addOrder_keeps_checked:
  assumes "\<forall>stored \<in> set orders. order_checked stored"
    and "Order_ctor ident symb qty prc type = Inr order"
  shows "\<forall>stored \<in> set (addOrder orders order). order_checked stored"
  using assms Order_ctor_checked by (auto simp: addOrder_def)

lemma lookups_return_checked:
  assumes "\<forall>stored \<in> set orders. order_checked stored"
  shows "getOrderById orders ident = Inr order \<Longrightarrow> order_checked order"
    and "getOrderBySymbol orders symb = Inr order \<Longrightarrow> order_checked order"
  using assms getOrderById_found getOrderBySymbol_found by blast+

text \<open>
  Claim C8, at the input where the code departs from it. The order that the constructor
  returns for a NaN price is stored by \<open>addOrder\<close> and returned by both lookups, and it
  is not within the bounds: its price is not strictly positive.
\<close>

theorem stored_order_out_of_bounds:
  "Order_ctor 1 ''AAPL'' 100 d_NaN MARKET = Inr nan_order
   \<and> addOrder [] nan_order = [nan_order]
   \<and> getOrderById (addOrder [] nan_order) 1 = Inr nan_order
   \<and> getOrderBySymbol (addOrder [] nan_order) ''AAPL'' = Inr nan_order
   \<and> \<not> order_in_bounds nan_order"
  by (simp add: Order_ctor_def addOrder_def order_in_bounds_def nan_order_def MARKET_def
      d_le_zero_iff d_lt_zero_iff d_NaN_is_nan)

subsection \<open>Order processing: failures and \<open>main\<close>\<close>
















subsection \<open>The price calculator\<close>

lemma calculateVWAP_loop_foldl:
  "calculateVWAP_loop bids tv tpv =
     (foldl (\<lambda>t bid. d_add t (d_of_int (snd bid))) tv bids,
      foldl (\<lambda>t bid. d_add t (d_mul (fst bid) (d_of_int (snd bid)))) tpv bids)"
  by (induction bids arbitrary: tv tpv) simp_all

lemma calculateVWAP_spec: "calculateVWAP bids = vwap_spec bids"
  by (simp add: calculateVWAP_def vwap_spec_def total_volume_def total_price_volume_def
      calculateVWAP_loop_foldl)

text \<open>The pointer loop started at offset \<open>ptr\<close> runs over the elements from there on.\<close>

lemma pointers_loop_drop:
  "ptr \<le> length bids \<Longrightarrow>
   calculateVWAPWithPointers_loop bids ptr (length bids) tv tpv =
     calculateVWAP_loop (drop ptr bids) tv tpv"
proof (induction "length bids - ptr" arbitrary: ptr tv tpv)
  case 0
  then have "ptr = length bids" by simp
  then show ?case
    by (simp add: calculateVWAPWithPointers_loop.simps [of bids "length bids"])
next
  case (Suc n)
  then have lt: "ptr < length bids" and n: "n = length bids - (ptr + 1)" by simp_all
  have d: "drop ptr bids = bids ! ptr # drop (ptr + 1) bids"
    using lt by (simp add: Cons_nth_drop_Suc)
  show ?case
    using lt Suc.hyps(1) [OF n]
    by (simp add: calculateVWAPWithPointers_loop.simps [of bids ptr] d)
qed

lemma calculateVWAPWithPointers_nonempty:
  "bids \<noteq> [] \<Longrightarrow> calculateVWAPWithPointers bids = calculateVWAP bids"
  by (simp add: calculateVWAPWithPointers_def calculateVWAP_def pointers_loop_drop)

text \<open>
  Claim C4. On every non-empty vector of price and volume pairs \<open>calculateVWAP\<close> and
  \<open>calculateVWAPWithPointers\<close> return the same double, the total of price times volume
  divided by the total volume. On the empty vector they differ:
  \<open>calculateVWAPWithPointers\<close> returns 0.0, while \<open>calculateVWAP\<close> divides 0 by 0
  without a guard, which gives a NaN.
\<close>

theorem calculateVWAP_equivalence:
  "(bids \<noteq> [] \<longrightarrow>
      calculateVWAP bids = calculateVWAPWithPointers bids
      \<and> calculateVWAPWithPointers bids = vwap_spec bids)
   \<and> calculateVWAP bids = vwap_spec bids
   \<and> calculateVWAPWithPointers [] = 0
   \<and> calculateVWAP [] = d_div (d_of_int 0) (d_of_int 0)
   \<and> d_is_nan (calculateVWAP [])
   \<and> \<not> d_is_nan (calculateVWAPWithPointers [])
   \<and> calculateVWAP [] \<noteq> calculateVWAPWithPointers []"
proof -
  have e: "calculateVWAP [] = d_div (d_of_int 0) (d_of_int 0)"
    by (simp add: calculateVWAP_def)
  have p: "calculateVWAPWithPointers [] = 0"
    by (simp add: calculateVWAPWithPointers_def)
  have n: "d_is_nan (calculateVWAP [])"
    unfolding e zero_div_zero by (rule d_NaN_is_nan)
  have "calculateVWAP [] \<noteq> calculateVWAPWithPointers []"
    using n zero_not_nan unfolding p by metis
  then show ?thesis
    using e p n zero_not_nan calculateVWAP_spec [of bids] calculateVWAPWithPointers_nonempty [of bids]
    by simp
qed

text \<open>
  Ten units at 100.0 and thirty at 101.0: both functions return 100.75.
\<close>

lemma vwap_spec_example: "vwap_spec [(d_of_int 100, 10), (d_of_int 101, 30)] = 0x4059300000000000"
  by code_simp

theorem calculateVWAP_equivalence_witness:
  "[(d_of_int 100, 10), (d_of_int 101, 30)] \<noteq> []
   \<and> calculateVWAP [(d_of_int 100, 10), (d_of_int 101, 30)] = 0x4059300000000000
   \<and> calculateVWAPWithPointers [(d_of_int 100, 10), (d_of_int 101, 30)] = 0x4059300000000000"
  using calculateVWAP_equivalence [of "[(d_of_int 100, 10), (d_of_int 101, 30)]"]
  by (simp add: vwap_spec_example)

subsection \<open>Logging\<close>

text \<open>Both functions return exactly whether the CSV file could be opened.\<close>

lemma log_market_data_flag:
  "fst (log_market_data show_double fixed symb prc volume timestamp (lg, fs)) =
     can_open fs (log_directory lg @ ''_market_data.csv'')"
  by (simp add: log_market_data_def Let_def)

lemma log_order_flag:
  "fst (log_order show_double fixed order_id symb qty prc order_type (lg, fs)) =
     can_open fs (log_directory lg @ ''_orders.csv'')"
  by (simp add: log_order_def Let_def)

lemma log_market_data_files:
  "snd (snd (log_market_data show_double fixed symb prc volume timestamp (lg, fs))) =
     (if can_open fs (log_directory lg @ ''_market_data.csv'')
      then append_to_file (log_directory lg @ ''_market_data.csv'')
             (market_data_row show_double symb prc volume timestamp @ endl) fs
      else fs)"
  by (simp add: log_market_data_def Let_def)

lemma log_order_files:
  "snd (snd (log_order show_double fixed order_id symb qty prc order_type (lg, fs))) =
     (if can_open fs (log_directory lg @ ''_orders.csv'')
      then append_to_file (log_directory lg @ ''_orders.csv'')
             (order_row show_double order_id symb qty prc order_type @ endl) fs
      else fs)"
  by (simp add: log_order_def Let_def)

lemma contents_append_to_file:
  "contents (append_to_file path text fs) =
     (contents fs)(path \<mapsto> file_text fs path @ written fs path text)"
  by (simp add: append_to_file_def)

text \<open>
  Claim C7 fails as stated: on a full disk the market-data CSV file opens and the write
  fails; \<open>log_market_data\<close> and \<open>log_order\<close> return true all the same, and the file,
  created by the opening, is empty: no row has been appended.
\<close>

theorem log_returns_true_without_row:
  "fst (log_market_data (\<lambda>d. ''150.75'') (\<lambda>d. ''150.75'') ''AAPL'' 0x4062D80000000000 1000
          1713859200 (main_logger, fs_full)) = True
   \<and> contents (snd (snd (log_market_data (\<lambda>d. ''150.75'') (\<lambda>d. ''150.75'') ''AAPL''
          0x4062D80000000000 1000 1713859200 (main_logger, fs_full)))) ''market_data_market_data.csv''
       = Some []
   \<and> fst (log_order (\<lambda>d. ''150.5'') (\<lambda>d. ''150.50'') 1001 ''AAPL'' 500 0x4062D00000000000
          CHR ''B'' (main_logger, fs_full)) = True
   \<and> contents (snd (snd (log_order (\<lambda>d. ''150.5'') (\<lambda>d. ''150.50'') 1001 ''AAPL'' 500
          0x4062D00000000000 CHR ''B'' (main_logger, fs_full)))) ''market_data_orders.csv''
       = Some []"
  by (simp add: log_market_data_flag log_order_flag log_market_data_files log_order_files
      contents_append_to_file written_def file_text_def fs_full_def main_logger_def)

text \<open>
  Claim C7, amended. \<open>log_market_data\<close> returns true exactly when the market-data CSV
  file can be opened, and \<open>log_order\<close> exactly when the orders CSV file can. When the
  file opens and the write succeeds, the call has appended exactly one row, of the form
  timestamp,price,volume,symbol respectively order_id,symbol,quantity,price,order_type,
  closed by a line feed, and every other file is as it was. When the file opens and the
  write fails after \<open>k\<close> characters, the call still returns true, and only the first
  \<open>k\<close> characters of the row have been appended. When the file cannot be opened, the
  call returns false and leaves all files as they were.
\<close>

theorem csv_logging:
  "fst (log_market_data show_double fixed symb prc volume timestamp (lg, fs)) =
       can_open fs (log_directory lg @ ''_market_data.csv'')
   \<and> (can_open fs (log_directory lg @ ''_market_data.csv'')
         \<and> write_limit fs (log_directory lg @ ''_market_data.csv'') = None \<longrightarrow>
      contents (snd (snd (log_market_data show_double fixed symb prc volume timestamp (lg, fs)))) =
          (contents fs)(log_directory lg @ ''_market_data.csv'' \<mapsto>
             file_text fs (log_directory lg @ ''_market_data.csv'')
               @ show_nat (unat timestamp) @ '','' @ show_double prc @ '','' @ show_int volume
               @ '','' @ symb @ endl))
   \<and> (can_open fs (log_directory lg @ ''_market_data.csv'')
         \<and> write_limit fs (log_directory lg @ ''_market_data.csv'') = Some k \<longrightarrow>
      contents (snd (snd (log_market_data show_double fixed symb prc volume timestamp (lg, fs)))) =
          (contents fs)(log_directory lg @ ''_market_data.csv'' \<mapsto>
             file_text fs (log_directory lg @ ''_market_data.csv'')
               @ take k (show_nat (unat timestamp) @ '','' @ show_double prc @ '','' @ show_int volume
                         @ '','' @ symb @ endl)))
   \<and> (\<not> can_open fs (log_directory lg @ ''_market_data.csv'') \<longrightarrow>
      snd (snd (log_market_data show_double fixed symb prc volume timestamp (lg, fs))) = fs)
   \<and> fst (log_order show_double fixed order_id symb qty prc order_type (lg, fs)) =
       can_open fs (log_directory lg @ ''_orders.csv'')
   \<and> (can_open fs (log_directory lg @ ''_orders.csv'')
         \<and> write_limit fs (log_directory lg @ ''_orders.csv'') = None \<longrightarrow>
      contents (snd (snd (log_order show_double fixed order_id symb qty prc order_type (lg, fs)))) =
          (contents fs)(log_directory lg @ ''_orders.csv'' \<mapsto>
             file_text fs (log_directory lg @ ''_orders.csv'')
               @ show_int order_id @ '','' @ symb @ '','' @ show_int qty @ '','' @ show_double prc
               @ '','' @ [order_type] @ endl))
   \<and> (can_open fs (log_directory lg @ ''_orders.csv'')
         \<and> write_limit fs (log_directory lg @ ''_orders.csv'') = Some k \<longrightarrow>
      contents (snd (snd (log_order show_double fixed order_id symb qty prc order_type (lg, fs)))) =
          (contents fs)(log_directory lg @ ''_orders.csv'' \<mapsto>
             file_text fs (log_directory lg @ ''_orders.csv'')
               @ take k (show_int order_id @ '','' @ symb @ '','' @ show_int qty @ '',''
                         @ show_double prc @ '','' @ [order_type] @ endl)))
   \<and> (\<not> can_open fs (log_directory lg @ ''_orders.csv'') \<longrightarrow>
      snd (snd (log_order show_double fixed order_id symb qty prc order_type (lg, fs))) = fs)"
  by (simp add: log_market_data_flag log_order_flag log_market_data_files log_order_files
      contents_append_to_file written_def market_data_row_def order_row_def)

theorem csv_logging_witness:
  "can_open fs_open ''market_data_market_data.csv''
   \<and> write_limit fs_open ''market_data_market_data.csv'' = None
   \<and> fst (log_market_data (\<lambda>d. ''150.75'') (\<lambda>d. ''150.75'') ''AAPL'' 0x4062D80000000000 1000 1713859200
            (main_logger, fs_open)) = True
   \<and> contents (snd (snd (log_market_data (\<lambda>d. ''150.75'') (\<lambda>d. ''150.75'') ''AAPL''
            0x4062D80000000000 1000 1713859200 (main_logger, fs_open)))) ''market_data_market_data.csv''
       = Some (''1713859200,150.75,1000,AAPL'' @ endl)
   \<and> can_open fs_open ''market_data_orders.csv''
   \<and> write_limit fs_open ''market_data_orders.csv'' = None
   \<and> contents (snd (snd (log_order (\<lambda>d. ''150.5'') (\<lambda>d. ''150.50'') 1001 ''AAPL'' 500
            0x4062D00000000000 CHR ''B'' (main_logger, fs_open)))) ''market_data_orders.csv''
       = Some (''1001,AAPL,500,150.5,B'' @ endl)
   \<and> can_open fs_full ''market_data_orders.csv''
   \<and> write_limit fs_full ''market_data_orders.csv'' = Some 0
   \<and> fst (log_order (\<lambda>d. ''150.5'') (\<lambda>d. ''150.50'') 1001 ''AAPL'' 500
            0x4062D00000000000 CHR ''B'' (main_logger, fs_full)) = True
   \<and> contents (snd (snd (log_order (\<lambda>d. ''150.5'') (\<lambda>d. ''150.50'') 1001 ''AAPL'' 500
            0x4062D00000000000 CHR ''B'' (main_logger, fs_full)))) ''market_data_orders.csv''
       = Some []
   \<and> \<not> can_open fs_closed ''market_data_market_data.csv''
   \<and> fst (log_market_data (\<lambda>d. ''150.75'') (\<lambda>d. ''150.75'') ''AAPL'' 0x4062D80000000000 1000 1713859200
            (main_logger, fs_closed)) = False
   \<and> \<not> can_open fs_closed ''market_data_orders.csv''
   \<and> snd (snd (log_order (\<lambda>d. ''150.5'') (\<lambda>d. ''150.50'') 1001 ''AAPL'' 500
            0x4062D00000000000 CHR ''B'' (main_logger, fs_closed))) = fs_closed"
proof -
  have ts: "show_nat (unat (1713859200 :: 64 word)) = ''1713859200''"
    by (simp add: show_nat.simps digit_char_def)
  have d: "log_directory main_logger @ ''_market_data.csv'' = ''market_data_market_data.csv''"
    "log_directory main_logger @ ''_orders.csv'' = ''market_data_orders.csv''"
    by (simp_all add: main_logger_def)
  have o: "can_open fs_open path" "write_limit fs_open path = None" "file_text fs_open path = []"
    for path
    by (simp_all add: fs_open_def file_text_def)
  have f: "can_open fs_full path" "write_limit fs_full path = Some 0" "file_text fs_full path = []"
    for path
    by (simp_all add: fs_full_def file_text_def)
  have c: "\<not> can_open fs_closed path" for path
    by (simp add: fs_closed_def)
  note open_market = csv_logging [where lg = main_logger and fs = fs_open and k = 0
      and show_double = "\<lambda>d. ''150.75''" and fixed = "\<lambda>d. ''150.75''"
      and prc = "0x4062D80000000000"
      and symb = "''AAPL''" and timestamp = 1713859200 and volume = 1000
      and order_id = 1001 and qty = 500 and order_type = "CHR ''B''", unfolded d]
  note open_order = csv_logging [where lg = main_logger and fs = fs_open and k = 0
      and show_double = "\<lambda>d. ''150.5''" and fixed = "\<lambda>d. ''150.50''"
      and prc = "0x4062D00000000000"
      and symb = "''AAPL''" and timestamp = 1713859200 and volume = 1000
      and order_id = 1001 and qty = 500 and order_type = "CHR ''B''", unfolded d]
  note closed_market = csv_logging [where lg = main_logger and fs = fs_closed and k = 0
      and show_double = "\<lambda>d. ''150.75''" and fixed = "\<lambda>d. ''150.75''"
      and prc = "0x4062D80000000000"
      and symb = "''AAPL''" and timestamp = 1713859200 and volume = 1000
      and order_id = 1001 and qty = 500 and order_type = "CHR ''B''", unfolded d]
  note closed_order = csv_logging [where lg = main_logger and fs = fs_closed and k = 0
      and show_double = "\<lambda>d. ''150.5''" and fixed = "\<lambda>d. ''150.50''"
      and prc = "0x4062D00000000000"
      and symb = "''AAPL''" and timestamp = 1713859200 and volume = 1000
      and order_id = 1001 and qty = 500 and order_type = "CHR ''B''", unfolded d]
  note full_order = csv_logging [where lg = main_logger and fs = fs_full and k = 0
      and show_double = "\<lambda>d. ''150.5''" and fixed = "\<lambda>d. ''150.50''"
      and prc = "0x4062D00000000000"
      and symb = "''AAPL''" and timestamp = 1713859200 and volume = 1000
      and order_id = 1001 and qty = 500 and order_type = "CHR ''B''", unfolded d]
  from open_market o have 1:
    "fst (log_market_data (\<lambda>d. ''150.75'') (\<lambda>d. ''150.75'') ''AAPL'' 0x4062D80000000000 1000 1713859200
            (main_logger, fs_open)) = True"
    by blast
  from open_market o have
    "contents (snd (snd (log_market_data (\<lambda>d. ''150.75'') (\<lambda>d. ''150.75'') ''AAPL''
            0x4062D80000000000 1000 1713859200 (main_logger, fs_open)))) =
       (contents fs_open)(''market_data_market_data.csv'' \<mapsto>
             file_text fs_open ''market_data_market_data.csv''
               @ show_nat (unat (1713859200 :: 64 word)) @ '','' @ ''150.75'' @ '','' @ show_int 1000
               @ '','' @ ''AAPL'' @ endl)"
    by blast
  then have 2:
    "contents (snd (snd (log_market_data (\<lambda>d. ''150.75'') (\<lambda>d. ''150.75'') ''AAPL''
            0x4062D80000000000 1000 1713859200 (main_logger, fs_open)))) ''market_data_market_data.csv''
       = Some (''1713859200,150.75,1000,AAPL'' @ endl)"
    unfolding ts o by (simp add: show_int_small)
  from open_order o have
    "contents (snd (snd (log_order (\<lambda>d. ''150.5'') (\<lambda>d. ''150.50'') 1001 ''AAPL'' 500
            0x4062D00000000000 CHR ''B'' (main_logger, fs_open)))) =
       (contents fs_open)(''market_data_orders.csv'' \<mapsto>
             file_text fs_open ''market_data_orders.csv''
               @ show_int 1001 @ '','' @ ''AAPL'' @ '','' @ show_int 500 @ '','' @ ''150.5''
               @ '','' @ [CHR ''B''] @ endl)"
    by blast
  then have 3:
    "contents (snd (snd (log_order (\<lambda>d. ''150.5'') (\<lambda>d. ''150.50'') 1001 ''AAPL'' 500
            0x4062D00000000000 CHR ''B'' (main_logger, fs_open)))) ''market_data_orders.csv''
       = Some (''1001,AAPL,500,150.5,B'' @ endl)"
    unfolding o by (simp add: show_int_small)
  from full_order f have 4:
    "fst (log_order (\<lambda>d. ''150.5'') (\<lambda>d. ''150.50'') 1001 ''AAPL'' 500
            0x4062D00000000000 CHR ''B'' (main_logger, fs_full)) = True"
    by blast
  from full_order f have
    "contents (snd (snd (log_order (\<lambda>d. ''150.5'') (\<lambda>d. ''150.50'') 1001 ''AAPL'' 500
            0x4062D00000000000 CHR ''B'' (main_logger, fs_full)))) =
       (contents fs_full)(''market_data_orders.csv'' \<mapsto>
             file_text fs_full ''market_data_orders.csv''
               @ take 0 (show_int 1001 @ '','' @ ''AAPL'' @ '','' @ show_int 500 @ '','' @ ''150.5''
               @ '','' @ [CHR ''B''] @ endl))"
    by blast
  then have 5:
    "contents (snd (snd (log_order (\<lambda>d. ''150.5'') (\<lambda>d. ''150.50'') 1001 ''AAPL'' 500
            0x4062D00000000000 CHR ''B'' (main_logger, fs_full)))) ''market_data_orders.csv''
       = Some []"
    unfolding f by simp
  from closed_market c have 6:
    "fst (log_market_data (\<lambda>d. ''150.75'') (\<lambda>d. ''150.75'') ''AAPL'' 0x4062D80000000000 1000 1713859200
            (main_logger, fs_closed)) = False"
    by blast
  from closed_order c have 7:
    "snd (snd (log_order (\<lambda>d. ''150.5'') (\<lambda>d. ''150.50'') 1001 ''AAPL'' 500
            0x4062D00000000000 CHR ''B'' (main_logger, fs_closed))) = fs_closed"
    by blast
  from o f c 1 2 3 4 5 6 7 show ?thesis by blast
qed

end
